theory Spec2Isabelle
  imports Main
begin

section \<open>JavaScript values and errors\<close>

text \<open>
  Request bodies, responses and cached values are typed \<open>any\<close> in the sources. They are
  modelled by the JSON-shaped values below, with \<open>undefined\<close> as a value of its own
  (a cache lookup answers \<open>undefined\<close> on a miss). Numbers are restricted to integers.
\<close>

datatype jsval =
    JUndefined
  | JNull
  | JBool bool
  | JNum int
  | JStr string
  | JArr "jsval list"
  | JObj "(string \<times> jsval) list"

text \<open>The truthiness test of \<open>if (body)\<close> and \<open>&& result\<close>.\<close>

fun truthy :: "jsval \<Rightarrow> bool" where
  "truthy JUndefined = False"
| "truthy JNull = False"
| "truthy (JBool b) = b"
| "truthy (JNum n) = (n \<noteq> 0)"
| "truthy (JStr s) = (s \<noteq> [])"
| "truthy (JArr xs) = True"
| "truthy (JObj kvs) = True"

datatype http_method = GET | POST | PUT | DELETE

fun method_name :: "http_method \<Rightarrow> string" where
  "method_name GET = ''GET''"
| "method_name POST = ''POST''"
| "method_name PUT = ''PUT''"
| "method_name DELETE = ''DELETE''"

text \<open>
  An \<open>Error\<close> object: its message, the HTTP status that \<open>executeRequest\<close> attaches, and
  the three properties that \<open>makeRequest\<close> attaches to the error it builds once the
  retries are used up.
\<close>

datatype js_error =
  JsError (message: string) (status: "nat option")
    (originalError: "js_error option") (err_endpoint: "string option")
    (err_method: "http_method option")

definition Error :: "string \<Rightarrow> js_error" where
  "Error msg = JsError msg None None None None"

text \<open>How a template string prints an integer: in decimal, with a sign when negative.\<close>

definition digit :: "nat \<Rightarrow> char" where
  "digit d = ''0123456789'' ! d"

fun decimal :: "nat \<Rightarrow> string" where
  "decimal n = (if 10 \<le> n then decimal (n div 10) @ [digit (n mod 10)] else [digit n])"

definition string_of_int :: "int \<Rightarrow> string" where
  "string_of_int i = (if 0 \<le> i then decimal (nat i) else ''-'' @ decimal (nat (- i)))"

section \<open>The cache (core/memory-cache.ts)\<close>

subsection \<open>The underlying store\<close>

text \<open>
  \<open>MemoryCache\<close> wraps a store of the node-cache package, which is a dependency and not
  part of the repository. The store is modelled by the contract the wrapper relies on:
  \<^item> every entry carries an absolute expiry time in milliseconds, \<open>0\<close> meaning that the
    entry never expires;
  \<^item> \<open>set\<close> with a ttl of \<open>0\<close> stores an entry without expiry, with a ttl in seconds stores
    \<open>now + ttl * 1000\<close>, and without a ttl falls back to the configured \<open>stdTTL\<close>
    (where again \<open>0\<close> means no expiry);
  \<^item> \<open>get\<close> answers \<open>undefined\<close> for an absent key and for an entry whose expiry time
    has passed, and removes such an entry;
  \<^item> \<open>set\<close> answers a success flag, which the wrapper tests: a store that already holds
    \<open>maxKeys\<close> keys (\<open>maxKeys > -1\<close>) takes no further entry.
\<close>

record cache_entry =
  e_v :: jsval
  e_t :: int

record NodeCache =
  data :: "string \<rightharpoonup> cache_entry"
  keys :: nat
  stdTTL :: int
  maxKeys :: int

definition expired :: "int \<Rightarrow> cache_entry \<Rightarrow> bool" where
  "expired now e = (e_t e \<noteq> 0 \<and> e_t e < now)"

definition nc_del :: "string \<Rightarrow> NodeCache \<Rightarrow> nat \<times> NodeCache" where
  "nc_del key c =
     (case data c key of
        None \<Rightarrow> (0, c)
      | Some e \<Rightarrow> (1, c\<lparr>data := (data c)(key := None), keys := keys c - 1\<rparr>))"

definition nc_get :: "string \<Rightarrow> int \<Rightarrow> NodeCache \<Rightarrow> jsval \<times> NodeCache" where
  "nc_get key now c =
     (case data c key of
        None \<Rightarrow> (JUndefined, c)
      | Some e \<Rightarrow> if expired now e then (JUndefined, snd (nc_del key c)) else (e_v e, c))"

definition nc_has :: "string \<Rightarrow> int \<Rightarrow> NodeCache \<Rightarrow> bool \<times> NodeCache" where
  "nc_has key now c =
     (case data c key of
        None \<Rightarrow> (False, c)
      | Some e \<Rightarrow> if expired now e then (False, snd (nc_del key c)) else (True, c))"

definition wrap :: "jsval \<Rightarrow> int option \<Rightarrow> int \<Rightarrow> int \<Rightarrow> cache_entry" where
  "wrap val ttl now std =
     \<lparr>e_v = val,
      e_t = (case ttl of
             Some s \<Rightarrow> if s = 0 then 0 else now + s * 1000
           | None \<Rightarrow> if std = 0 then 0 else now + std * 1000)\<rparr>"

definition nc_set :: "string \<Rightarrow> jsval \<Rightarrow> int option \<Rightarrow> int \<Rightarrow> NodeCache \<Rightarrow> bool \<times> NodeCache" where
  "nc_set key val ttl now c =
     (if maxKeys c > -1 \<and> int (keys c) \<ge> maxKeys c then (False, c)
      else (True, c\<lparr>data := (data c)(key \<mapsto> wrap val ttl now (stdTTL c)),
                     keys := (if data c key = None then keys c + 1 else keys c)\<rparr>))"

definition nc_flushAll :: "NodeCache \<Rightarrow> NodeCache" where
  "nc_flushAll c = c\<lparr>data := Map.empty, keys := 0\<rparr>"

subsection \<open>MemoryCache\<close>

record MemoryCache =
  cache :: NodeCache
  hits :: nat
  misses :: nat

text \<open>\<open>MemoryCache.get\<close>, at clock reading \<open>now\<close>.\<close>

definition mc_get :: "string \<Rightarrow> int \<Rightarrow> MemoryCache \<Rightarrow> jsval \<times> MemoryCache" where
  "mc_get key now m =
     (let (val, c') = nc_get key now (cache m) in
      if val \<noteq> JUndefined then (val, m\<lparr>cache := c', hits := hits m + 1\<rparr>)
      else (val, m\<lparr>cache := c', misses := misses m + 1\<rparr>))"

text \<open>\<open>ttl || 0\<close> for an optional number: an absent ttl and the ttl \<open>0\<close> both give \<open>0\<close>.\<close>

definition ttl_or_0 :: "int option \<Rightarrow> int" where
  "ttl_or_0 ttl = (case ttl of None \<Rightarrow> 0 | Some s \<Rightarrow> s)"

text \<open>\<open>MemoryCache.set\<close>: the store is always called with the number \<open>ttl || 0\<close>.\<close>

definition mc_set :: "string \<Rightarrow> jsval \<Rightarrow> int option \<Rightarrow> int \<Rightarrow> MemoryCache \<Rightarrow> bool \<times> MemoryCache" where
  "mc_set key val ttl now m =
     (let (success, c') = nc_set key val (Some (ttl_or_0 ttl)) now (cache m) in
      (success, m\<lparr>cache := c'\<rparr>))"

definition mc_del :: "string \<Rightarrow> MemoryCache \<Rightarrow> nat \<times> MemoryCache" where
  "mc_del key m = (let (deleted, c') = nc_del key (cache m) in (deleted, m\<lparr>cache := c'\<rparr>))"

definition resetStats :: "MemoryCache \<Rightarrow> MemoryCache" where
  "resetStats m = m\<lparr>hits := 0, misses := 0\<rparr>"

definition flush :: "MemoryCache \<Rightarrow> MemoryCache" where
  "flush m = resetStats (m\<lparr>cache := nc_flushAll (cache m)\<rparr>)"

section \<open>The shared state\<close>

text \<open>
  The client, the cache and the rate limiter are singletons. Their state, the clock read
  by \<open>Date.now()\<close>, the jobs handed to the limiter and the calls that reached the
  transport are gathered in one record that every operation takes and returns. Log
  output is not modelled.
\<close>

record TrelloClientStats =
  totalRequests :: nat
  successfulRequests :: nat
  failedRequests :: nat
  cacheHits :: nat
  cacheMisses :: nat
  averageResponseTime :: int

record job =
  job_priority :: int
  job_weight :: int
  job_expiration :: int
  job_id :: string

record transport_call =
  call_url :: string
  call_method :: http_method
  call_body :: "string option"

record world =
  clock :: int
  stats :: TrelloClientStats
  memoryCache :: MemoryCache
  submitted :: "job list"
  sent :: "transport_call list"

text \<open>An awaited promise either yields a value or throws.\<close>

type_synonym 'a settled = "js_error + 'a"

type_synonym 'a async = "world \<Rightarrow> 'a settled \<times> world"

text \<open>\<open>await new Promise(resolve => setTimeout(resolve, ms))\<close>\<close>

definition sleep :: "int \<Rightarrow> world \<Rightarrow> world" where
  "sleep ms w = w\<lparr>clock := clock w + ms\<rparr>"

subsection \<open>getOrSet\<close>

record CacheOptions =
  co_ttl :: "int option"
  co_key :: "string option"



section \<open>The surroundings\<close>

text \<open>
  What the program cannot decide itself is supplied from outside:
  \<^item> \<open>admit n j\<close>: what the limiter does with the \<open>n\<close>-th job handed to it (counting from
    \<open>0\<close>): it either runs the job (\<open>None\<close>) or rejects it with an error, never having run
    it (expired while queued, dropped, limiter stopped); with the milliseconds the job
    waited;
  \<^item> \<open>fetch n c\<close>: how the \<open>n\<close>-th call of \<open>executeRequest\<close> settles: the parsed response, or
    the error it throws (network failure, non-2xx status, unparsable body); with the
    milliseconds it took;
  \<^item> \<open>stringify\<close>: \<open>JSON.stringify\<close>;
  \<^item> \<open>randomSuffix n\<close>: the random part of the \<open>n\<close>-th generated job id;
  \<^item> \<open>validDate s\<close>: whether \<open>new Date(s)\<close> is a valid date;
  \<^item> \<open>percentage s n\<close>: \<open>Math.round((s / n) * 100)\<close> in double precision arithmetic;
  \<^item> \<open>typeError\<close>: the message of the \<open>TypeError\<close> thrown by reading a property of
    \<open>null\<close> or \<open>undefined\<close>.
\<close>

record env =
  admit :: "nat \<Rightarrow> job \<Rightarrow> js_error option \<times> int"
  fetch :: "nat \<Rightarrow> transport_call \<Rightarrow> jsval settled \<times> int"
  stringify :: "jsval \<Rightarrow> string"
  randomSuffix :: "nat \<Rightarrow> string"
  validDate :: "string \<Rightarrow> bool"
  percentage :: "nat \<Rightarrow> nat \<Rightarrow> int"
  typeError :: string

section \<open>The rate limiter (trello/rate-limiter.ts)\<close>

record schedule_options =
  so_priority :: "int option"
  so_weight :: "int option"
  so_expiration :: "int option"
  so_id :: "string option"

text \<open>\<open>x || d\<close> for an optional number and for an optional string.\<close>

definition num_or :: "int option \<Rightarrow> int \<Rightarrow> int" where
  "num_or x d = (case x of None \<Rightarrow> d | Some n \<Rightarrow> if n = 0 then d else n)"

definition str_or :: "string option \<Rightarrow> string \<Rightarrow> string" where
  "str_or x d = (case x of None \<Rightarrow> d | Some s \<Rightarrow> if s = [] then d else s)"

text \<open>The \<open>jobOptions\<close> object built by \<open>schedule\<close>; \<open>n\<close> numbers the job.\<close>

definition jobOptions :: "env \<Rightarrow> schedule_options option \<Rightarrow> int \<Rightarrow> nat \<Rightarrow> job" where
  "jobOptions ev options time n =
     \<lparr>job_priority = num_or (Option.bind options so_priority) 5,
      job_weight = num_or (Option.bind options so_weight) 1,
      job_expiration = num_or (Option.bind options so_expiration) 60000,
      job_id = str_or (Option.bind options so_id)
                 (''job-'' @ string_of_int time @ ''-'' @ randomSuffix ev n)\<rparr>"

definition schedule :: "env \<Rightarrow> 'a async \<Rightarrow> schedule_options option \<Rightarrow> 'a async" where
  "schedule ev fn options w =
     (let n = length (submitted w);
          jobOpts = jobOptions ev options (clock w) n;
          w1 = w\<lparr>submitted := submitted w @ [jobOpts]\<rparr>
      in case admit ev n jobOpts of
           (Some error, waited) \<Rightarrow> (Inl error, sleep waited w1)
         | (None, waited) \<Rightarrow> fn (sleep waited w1))"

text \<open>The option objects of \<open>scheduleHighPriority\<close> and \<open>scheduleLowPriority\<close>.\<close>

definition highPriorityOptions :: "string option \<Rightarrow> int \<Rightarrow> schedule_options" where
  "highPriorityOptions ident time =
     \<lparr>so_priority = Some 9, so_weight = None, so_expiration = None,
      so_id = Some (str_or ident (''high-priority-'' @ string_of_int time))\<rparr>"

definition lowPriorityOptions :: "string option \<Rightarrow> int \<Rightarrow> schedule_options" where
  "lowPriorityOptions ident time =
     \<lparr>so_priority = Some 1, so_weight = None, so_expiration = None,
      so_id = Some (str_or ident (''low-priority-'' @ string_of_int time))\<rparr>"

definition scheduleHighPriority :: "env \<Rightarrow> 'a async \<Rightarrow> string option \<Rightarrow> 'a async" where
  "scheduleHighPriority ev fn ident w =
     schedule ev fn (Some (highPriorityOptions ident (clock w))) w"

definition scheduleLowPriority :: "env \<Rightarrow> 'a async \<Rightarrow> string option \<Rightarrow> 'a async" where
  "scheduleLowPriority ev fn ident w =
     schedule ev fn (Some (lowPriorityOptions ident (clock w))) w"

definition getReservoirLevel :: "world \<Rightarrow> int" where
  "getReservoirLevel w = 0"

section \<open>The client (trello/client.ts)\<close>

datatype priority = High | Normal | Low

record ApiRequestOptions =
  o_method :: "http_method option"
  o_body :: jsval
  o_useCache :: "bool option"
  o_cacheTtl :: "int option"
  o_priority :: "priority option"
  o_retries :: "int option"

definition baseUrl :: string where
  "baseUrl = ''https://api.trello.com/1''"

text \<open>\<open>Array.prototype.join\<close> on strings.\<close>

fun join :: "string \<Rightarrow> string list \<Rightarrow> string" where
  "join sep [] = []"
| "join sep [x] = x"
| "join sep (x # y # ys) = x @ sep @ join sep (y # ys)"

definition generateCacheKey :: "env \<Rightarrow> http_method \<Rightarrow> string \<Rightarrow> jsval \<Rightarrow> string" where
  "generateCacheKey ev method endpoint body =
     (let parts = [method_name method, endpoint];
          parts = (if truthy body then parts @ [stringify ev body] else parts)
      in join ''|'' parts)"

text \<open>
  \<open>executeRequest\<close>, from the outside: the call is recorded and settles as the
  surroundings say. The credentials added to the URL are left out of the record.
\<close>

definition transportCall :: "env \<Rightarrow> string \<Rightarrow> http_method \<Rightarrow> jsval \<Rightarrow> transport_call" where
  "transportCall ev url method body =
     \<lparr>call_url = url, call_method = method,
      call_body = (if truthy body \<and> (method = POST \<or> method = PUT)
                   then Some (stringify ev body) else None)\<rparr>"

definition executeRequest :: "env \<Rightarrow> string \<Rightarrow> http_method \<Rightarrow> jsval \<Rightarrow> jsval async" where
  "executeRequest ev url method body w =
     (let call = transportCall ev url method body;
          (outcome, took) = fetch ev (length (sent w)) call
      in (outcome, sleep took (w\<lparr>sent := sent w @ [call]\<rparr>)))"

text \<open>\<open>Math.round(a / b)\<close> for integers \<open>a\<close> and \<open>b > 0\<close>: halves round upwards.\<close>

definition round_div :: "int \<Rightarrow> int \<Rightarrow> int" where
  "round_div a b = (2 * a + b) div (2 * b)"

definition updateStats :: "bool \<Rightarrow> int \<Rightarrow> world \<Rightarrow> world" where
  "updateStats success duration w =
     (let st = stats w;
          st = st\<lparr>totalRequests := totalRequests st + 1\<rparr>;
          st = (if success then st\<lparr>successfulRequests := successfulRequests st + 1\<rparr>
                else st\<lparr>failedRequests := failedRequests st + 1\<rparr>);
          totalTime = averageResponseTime st * (int (totalRequests st) - 1) + duration;
          st = st\<lparr>averageResponseTime := round_div totalTime (int (totalRequests st))\<rparr>
      in w\<lparr>stats := st\<rparr>)"

text \<open>The local constants of one run of \<open>makeRequest\<close>.\<close>

record locals =
  endpoint :: string
  httpMethod :: http_method
  body :: jsval
  useCache :: bool
  cacheTtl :: "int option"
  priority :: priority
  retries :: int
  url :: string
  cacheKey :: string
  startTime :: int

definition destructure :: "env \<Rightarrow> string \<Rightarrow> ApiRequestOptions \<Rightarrow> world \<Rightarrow> locals" where
  "destructure ev ep options w =
     (let m = (case o_method options of None \<Rightarrow> GET | Some x \<Rightarrow> x) in
      \<lparr>endpoint = ep,
       httpMethod = m,
       body = o_body options,
       useCache = (case o_useCache options of None \<Rightarrow> True | Some x \<Rightarrow> x),
       cacheTtl = o_cacheTtl options,
       priority = (case o_priority options of None \<Rightarrow> Normal | Some x \<Rightarrow> x),
       retries = (case o_retries options of None \<Rightarrow> 3 | Some x \<Rightarrow> x),
       url = baseUrl @ ep,
       cacheKey = generateCacheKey ev m ep (o_body options),
       startTime = clock w\<rparr>)"

definition scheduleRequest :: "env \<Rightarrow> locals \<Rightarrow> jsval async" where
  "scheduleRequest ev l =
     (case priority l of
        High \<Rightarrow> scheduleHighPriority ev (executeRequest ev (url l) (httpMethod l) (body l)) None
      | Low \<Rightarrow> scheduleLowPriority ev (executeRequest ev (url l) (httpMethod l) (body l)) None
      | Normal \<Rightarrow> schedule ev (executeRequest ev (url l) (httpMethod l) (body l)) None)"

text \<open>The backoff before the next attempt, \<open>attempt\<close> being the number of failures so far.\<close>

definition backoff :: "int \<Rightarrow> int" where
  "backoff attempt = min (1000 * 2 ^ nat (attempt - 1)) 10000"

text \<open>
  The \<open>while (attempt <= retries)\<close> loop. It ends with \<open>Inr result\<close> when an attempt
  succeeds (the \<open>return\<close> inside the loop) and with \<open>Inl lastError\<close> when the loop runs out.
\<close>

function retryLoop ::
  "env \<Rightarrow> locals \<Rightarrow> int \<Rightarrow> js_error option \<Rightarrow> world \<Rightarrow> (js_error option + jsval) \<times> world" where
  "retryLoop ev l attempt lastError w =
     (if attempt \<le> retries l then
        (case scheduleRequest ev l w of
           (Inr result, w1) \<Rightarrow>
             (let duration = clock w1 - startTime l;
                  w2 = updateStats True duration w1;
                  w3 = (if httpMethod l = GET \<and> useCache l \<and> truthy result
                        then w2\<lparr>memoryCache :=
                               snd (mc_set (cacheKey l) result (cacheTtl l) (clock w2) (memoryCache w2))\<rparr>
                        else w2)
              in (Inr result, w3))
         | (Inl error, w1) \<Rightarrow>
             (let attempt' = attempt + 1;
                  w2 = (if attempt' \<le> retries l then sleep (backoff attempt') w1 else w1)
              in retryLoop ev l attempt' (Some error) w2))
      else (Inl lastError, w))"
  by pat_completeness auto
termination
  by (relation "measure (\<lambda>(ev, l, attempt, lastError, w). nat (retries l + 1 - attempt))") auto

text \<open>The error thrown once every attempt has failed.\<close>

definition detailedError :: "locals \<Rightarrow> js_error option \<Rightarrow> js_error" where
  "detailedError l lastError =
     JsError (''Trello API request failed after '' @ string_of_int (retries l) @ '' attempts: ''
                @ endpoint l @ '' - '' @ str_or (map_option message lastError) ''Unknown error'')
       None lastError (Some (endpoint l)) (Some (httpMethod l))"

text \<open>
  The \<open>try\<close> block of \<open>makeRequest\<close> with its \<open>catch\<close>: the error thrown after the loop is
  thrown inside the \<open>try\<close>, so the \<open>catch\<close> block runs on it before it reaches the caller.
\<close>

definition tryRequest :: "env \<Rightarrow> locals \<Rightarrow> jsval async" where
  "tryRequest ev l w =
     (case retryLoop ev l 0 None w of
        (Inr result, w') \<Rightarrow> (Inr result, w')
      | (Inl lastError, w') \<Rightarrow>
          (let w1 = updateStats False (clock w' - startTime l) w';
               thrown = detailedError l lastError;
               w2 = updateStats False (clock w1 - startTime l) w1
           in (Inl thrown, w2)))"

definition makeRequest :: "env \<Rightarrow> string \<Rightarrow> ApiRequestOptions \<Rightarrow> jsval async" where
  "makeRequest ev ep options w =
     (let l = destructure ev ep options w in
      if httpMethod l = GET \<and> useCache l then
        (let (cached, m1) = mc_get (cacheKey l) (clock w) (memoryCache w);
             w1 = w\<lparr>memoryCache := m1\<rparr>
         in if cached \<noteq> JUndefined
            then (Inr cached, w1\<lparr>stats := (stats w1)\<lparr>cacheHits := cacheHits (stats w1) + 1\<rparr>\<rparr>)
            else tryRequest ev l (w1\<lparr>stats := (stats w1)\<lparr>cacheMisses := cacheMisses (stats w1) + 1\<rparr>\<rparr>))
      else tryRequest ev l w)"

subsection \<open>Card operations\<close>

text \<open>A request object becomes the JSON object of its defined properties, in order.\<close>

definition prop_if :: "string \<Rightarrow> 'a option \<Rightarrow> ('a \<Rightarrow> jsval) \<Rightarrow> (string \<times> jsval) list" where
  "prop_if name x f = (case x of None \<Rightarrow> [] | Some y \<Rightarrow> [(name, f y)])"

definition strings :: "string list \<Rightarrow> jsval" where
  "strings xs = JArr (map JStr xs)"

text \<open>\<open>Omit<CreateCardRequest, 'idList'>\<close>, with the properties the bulk tool fills in.\<close>

record card_data =
  cd_name :: string
  cd_desc :: "string option"
  cd_due :: "string option"
  cd_pos :: "string option"
  cd_idMembers :: "string list option"
  cd_idLabels :: "string list option"

text \<open>\<open>{ ...card, idList }\<close>\<close>

definition with_idList :: "card_data \<Rightarrow> string \<Rightarrow> jsval" where
  "with_idList crd idList =
     JObj ([(''name'', JStr (cd_name crd))]
           @ prop_if ''desc'' (cd_desc crd) JStr
           @ prop_if ''due'' (cd_due crd) JStr
           @ prop_if ''pos'' (cd_pos crd) JStr
           @ prop_if ''idMembers'' (cd_idMembers crd) strings
           @ prop_if ''idLabels'' (cd_idLabels crd) strings
           @ [(''idList'', JStr idList)])"

definition createCard :: "env \<Rightarrow> jsval \<Rightarrow> jsval async" where
  "createCard ev dat =
     makeRequest ev ''/cards''
       \<lparr>o_method = Some POST, o_body = dat, o_useCache = Some False, o_cacheTtl = None,
        o_priority = Some Normal, o_retries = None\<rparr>"

definition updateCard :: "env \<Rightarrow> string \<Rightarrow> jsval \<Rightarrow> jsval async" where
  "updateCard ev cardId dat =
     makeRequest ev (''/cards/'' @ cardId)
       \<lparr>o_method = Some PUT, o_body = dat, o_useCache = Some False, o_cacheTtl = None,
        o_priority = None, o_retries = None\<rparr>"

text \<open>\<open>moveCard\<close>, called by the bulk tool with a position that is always defined.\<close>

definition moveCard :: "env \<Rightarrow> string \<Rightarrow> string \<Rightarrow> string option \<Rightarrow> jsval async" where
  "moveCard ev cardId lst position =
     updateCard ev cardId (JObj ([(''idList'', JStr lst)] @ prop_if ''pos'' position JStr))"

subsection \<open>Bulk creation\<close>

text \<open>
  \<open>Promise.allSettled\<close>: every promise of the batch is awaited, and the outcomes are
  reported in the order of the batch. The promises of a batch run concurrently; the model
  lets them act on the shared state one after the other, in the order of the batch.
\<close>

fun allSettled :: "'a async list \<Rightarrow> world \<Rightarrow> 'a settled list \<times> world" where
  "allSettled [] w = ([], w)"
| "allSettled (p # ps) w =
     (let (r, w1) = p w;
          (rs, w2) = allSettled ps w1
      in (r # rs, w2))"

text \<open>\<open>xs.slice(i, i + n)\<close>\<close>

definition slice :: "'a list \<Rightarrow> nat \<Rightarrow> nat \<Rightarrow> 'a list" where
  "slice xs i j = take (j - i) (drop i xs)"

definition fulfilled :: "'a settled list \<Rightarrow> 'a list" where
  "fulfilled rs = concat (map (\<lambda>r. case r of Inr x \<Rightarrow> [x] | Inl e \<Rightarrow> []) rs)"

record BulkCreateCardsRequest =
  cards :: "card_data list"
  idList :: string

definition batchSize :: nat where
  "batchSize = 5"

text \<open>The \<open>for\<close> loop of \<open>bulkCreateCards\<close>; a rejected promise is only logged.\<close>

function bulkCreateLoop ::
  "env \<Rightarrow> BulkCreateCardsRequest \<Rightarrow> nat \<Rightarrow> jsval list \<Rightarrow> world \<Rightarrow> jsval list \<times> world" where
  "bulkCreateLoop ev request i createdCards w =
     (if i < length (cards request) then
        (let batch = slice (cards request) i (i + batchSize);
             promises = map (\<lambda>crd. createCard ev (with_idList crd (idList request))) batch;
             (batchResults, w1) = allSettled promises w;
             createdCards' = createdCards @ fulfilled batchResults;
             w2 = (if i + batchSize < length (cards request) then sleep 100 w1 else w1)
         in bulkCreateLoop ev request (i + batchSize) createdCards' w2)
      else (createdCards, w))"
  by pat_completeness auto
termination
  by (relation "measure (\<lambda>(ev, request, i, createdCards, w). length (cards request) - i)")
     (auto simp: batchSize_def)

definition bulkCreateCards :: "env \<Rightarrow> BulkCreateCardsRequest \<Rightarrow> world \<Rightarrow> jsval list \<times> world" where
  "bulkCreateCards ev request w = bulkCreateLoop ev request 0 [] w"

section \<open>The bulk tools (tools/bulk-tools.ts)\<close>

text \<open>
  A tool answers with a text. The model keeps the data the text is built from instead of
  the text: which message an error result carries, and for a success result the numbers
  and lists that the summary prints.
\<close>

datatype tool_message =
    AtLeastOne
  | AtMost50
  | CardNameRequired nat
  | InvalidDate nat
  | Caught string

datatype 'r tool_result = ToolError tool_message | ToolSuccess 'r

text \<open>\<open>validateRequired\<close>: each field is given with the truthiness of its value.\<close>

definition validateRequired :: "(string \<times> bool) list \<Rightarrow> js_error option" where
  "validateRequired required =
     (let missing = map fst (filter (\<lambda>(name, present). \<not> present) required)
      in if length missing > 0
         then Some (Error (''Missing required fields: '' @ join '', '' missing))
         else None)"

definition is_space :: "char \<Rightarrow> bool" where
  "is_space c = (c \<in> set [CHR '' '', CHR 0x09, CHR 0x0A, CHR 0x0B, CHR 0x0C, CHR 0x0D])"

definition trim :: "string \<Rightarrow> string" where
  "trim s = rev (dropWhile is_space (rev (dropWhile is_space s)))"

definition nonempty :: "string option \<Rightarrow> bool" where
  "nonempty x = (case x of None \<Rightarrow> False | Some s \<Rightarrow> s \<noteq> [])"

record card_input =
  ci_name :: "string option"
  ci_description :: "string option"
  ci_dueDate :: "string option"
  ci_position :: "string option"
  ci_memberIds :: "string list option"
  ci_labelIds :: "string list option"

record bulk_create_args =
  a_listId :: "string option"
  a_cards :: "card_input list option"

text \<open>The validation loop over the cards; \<open>i\<close> is the index of the first card of the list.\<close>

fun validateCards :: "env \<Rightarrow> nat \<Rightarrow> card_input list \<Rightarrow> tool_message option" where
  "validateCards ev i [] = None"
| "validateCards ev i (crd # rest) =
     (if \<not> nonempty (ci_name crd) \<or> trim (the (ci_name crd)) = [] then Some (CardNameRequired (i + 1))
      else if nonempty (ci_dueDate crd) \<and> \<not> validDate ev (the (ci_dueDate crd))
           then Some (InvalidDate (i + 1))
      else validateCards ev (i + 1) rest)"

definition keep_if :: "bool \<Rightarrow> 'a option \<Rightarrow> 'a option" where
  "keep_if b x = (if b then x else None)"

definition prepare :: "card_input \<Rightarrow> card_data" where
  "prepare crd =
     \<lparr>cd_name = trim (the (ci_name crd)),
      cd_desc = (if nonempty (ci_description crd) \<and> trim (the (ci_description crd)) \<noteq> []
                 then Some (trim (the (ci_description crd))) else None),
      cd_due = keep_if (nonempty (ci_dueDate crd)) (ci_dueDate crd),
      cd_pos = keep_if (nonempty (ci_position crd)) (ci_position crd),
      cd_idMembers = keep_if (case ci_memberIds crd of None \<Rightarrow> False | Some ms \<Rightarrow> length ms > 0)
                       (ci_memberIds crd),
      cd_idLabels = keep_if (case ci_labelIds crd of None \<Rightarrow> False | Some ls \<Rightarrow> length ls > 0)
                      (ci_labelIds crd)\<rparr>"

text \<open>
  Reading a property of a response: \<open>null\<close> and \<open>undefined\<close> have none, and the read
  throws a \<open>TypeError\<close>; values that are no objects answer \<open>undefined\<close>.
\<close>

fun readProp :: "env \<Rightarrow> string \<Rightarrow> jsval \<Rightarrow> js_error + jsval" where
  "readProp ev name JUndefined = Inl (Error (typeError ev))"
| "readProp ev name JNull = Inl (Error (typeError ev))"
| "readProp ev name (JObj kvs) = Inr (case map_of (rev kvs) name of None \<Rightarrow> JUndefined | Some x \<Rightarrow> x)"
| "readProp ev name other = Inr JUndefined"

text \<open>The lines \<open>${index + 1}. ${card.name} (${card.id})\<close> for the first ten cards.\<close>

fun listLines :: "env \<Rightarrow> jsval list \<Rightarrow> js_error + (jsval \<times> jsval) list" where
  "listLines ev [] = Inr []"
| "listLines ev (crd # rest) =
     (case readProp ev ''name'' crd of
        Inl e \<Rightarrow> Inl e
      | Inr n \<Rightarrow>
          (case readProp ev ''id'' crd of
             Inl e \<Rightarrow> Inl e
           | Inr ident \<Rightarrow>
               (case listLines ev rest of Inl e \<Rightarrow> Inl e | Inr ls \<Rightarrow> Inr ((n, ident) # ls))))"

record create_report =
  successCount :: nat
  failedCount :: nat
  total :: nat
  successRate :: int
  listed :: "(jsval \<times> jsval) list"
  moreCount :: nat
  failureNotice :: bool

definition BulkCreateCardsTool_execute ::
  "env \<Rightarrow> bulk_create_args \<Rightarrow> world \<Rightarrow> create_report tool_result \<times> world" where
  "BulkCreateCardsTool_execute ev args w =
     (case validateRequired [(''listId'', nonempty (a_listId args)), (''cards'', a_cards args \<noteq> None)] of
        Some e \<Rightarrow> (ToolError (Caught (message e)), w)
      | None \<Rightarrow>
          (let cs = the (a_cards args) in
           if length cs = 0 then (ToolError AtLeastOne, w)
           else if length cs > 50 then (ToolError AtMost50, w)
           else
             (case validateCards ev 0 cs of
                Some m \<Rightarrow> (ToolError m, w)
              | None \<Rightarrow>
                  (let cardsData = map prepare cs;
                       bulkRequest = \<lparr>cards = cardsData, idList = the (a_listId args)\<rparr>;
                       (createdCards, w') = bulkCreateCards ev bulkRequest w;
                       successCount = length createdCards;
                       failedCount = length cs - successCount
                   in if successCount > 0 then
                        (case listLines ev (take 10 createdCards) of
                           Inl e \<Rightarrow> (ToolError (Caught (message e)), w')
                         | Inr ls \<Rightarrow>
                             (ToolSuccess
                                \<lparr>successCount = successCount, failedCount = failedCount,
                                 total = length cs,
                                 successRate = percentage ev successCount (length cs),
                                 listed = ls, moreCount = length createdCards - 10,
                                 failureNotice = (failedCount > 0)\<rparr>, w'))
                      else
                        (ToolSuccess
                           \<lparr>successCount = successCount, failedCount = failedCount,
                            total = length cs,
                            successRate = percentage ev successCount (length cs),
                            listed = [], moreCount = 0, failureNotice = (failedCount > 0)\<rparr>, w')))))"

subsection \<open>Bulk move and bulk archive\<close>

text \<open>
  The two tools run the same loop, on \<open>moveCard\<close> and on \<open>updateCard\<close>: the batch is
  settled, every fulfilled value is pushed to the first list, and every rejection is
  pushed to the second list as the card id with \<open>result.reason?.message || 'Bilinmeyen hata'\<close>.
\<close>

definition settleBatch ::
  "string list \<Rightarrow> jsval settled list \<Rightarrow> jsval list \<times> (string \<times> string) list
     \<Rightarrow> jsval list \<times> (string \<times> string) list" where
  "settleBatch batch batchResults acc =
     fold (\<lambda>(cardId, result) (processed, failed).
             case result of
               Inr val \<Rightarrow> (processed @ [val], failed)
             | Inl reason \<Rightarrow> (processed, failed @ [(cardId, str_or (Some (message reason)) ''Bilinmeyen hata'')]))
       (zip batch batchResults) acc"

function bulkLoop ::
  "(string \<Rightarrow> jsval async) \<Rightarrow> string list \<Rightarrow> nat \<Rightarrow> jsval list \<times> (string \<times> string) list
     \<Rightarrow> world \<Rightarrow> (jsval list \<times> (string \<times> string) list) \<times> world" where
  "bulkLoop operation cardIds i acc w =
     (if i < length cardIds then
        (let batch = slice cardIds i (i + batchSize);
             promises = map operation batch;
             (batchResults, w1) = allSettled promises w;
             acc' = settleBatch batch batchResults acc;
             w2 = (if i + batchSize < length cardIds then sleep 100 w1 else w1)
         in bulkLoop operation cardIds (i + batchSize) acc' w2)
      else (acc, w))"
  by pat_completeness auto
termination
  by (relation "measure (\<lambda>(operation, cardIds, i, acc, w). length cardIds - i)")
     (auto simp: batchSize_def)

record bulk_move_args =
  m_cardIds :: "string list option"
  m_targetListId :: "string option"
  m_startPosition :: "string option"

record bulk_report =
  r_successCount :: nat
  r_failedCount :: nat
  r_total :: nat
  r_successRate :: int
  r_listed :: "(jsval \<times> jsval) list"
  r_moreCount :: nat
  r_failedCards :: "(string \<times> string) list"

text \<open>What both tools do with the two lists once the loop is over.\<close>

definition report ::
  "env \<Rightarrow> nat \<Rightarrow> jsval list \<times> (string \<times> string) list \<Rightarrow> world \<Rightarrow> bulk_report tool_result \<times> world" where
  "report ev n acc w =
     (let (processedCards, failedCards) = acc;
          successCount = length processedCards;
          failedCount = length failedCards
      in case (if successCount > 0 then listLines ev (take 10 processedCards) else Inr []) of
           Inl e \<Rightarrow> (ToolError (Caught (message e)), w)
         | Inr ls \<Rightarrow>
             (ToolSuccess
                \<lparr>r_successCount = successCount, r_failedCount = failedCount, r_total = n,
                 r_successRate = percentage ev successCount n,
                 r_listed = ls, r_moreCount = length processedCards - 10,
                 r_failedCards = failedCards\<rparr>, w))"

definition BulkMoveCardsTool_execute ::
  "env \<Rightarrow> bulk_move_args \<Rightarrow> world \<Rightarrow> bulk_report tool_result \<times> world" where
  "BulkMoveCardsTool_execute ev args w =
     (case validateRequired [(''cardIds'', m_cardIds args \<noteq> None),
                             (''targetListId'', nonempty (m_targetListId args))] of
        Some e \<Rightarrow> (ToolError (Caught (message e)), w)
      | None \<Rightarrow>
          (let cardIds = the (m_cardIds args) in
           if length cardIds = 0 then (ToolError AtLeastOne, w)
           else if length cardIds > 50 then (ToolError AtMost50, w)
           else
             (let startPosition = str_or (m_startPosition args) ''bottom'';
                  (acc, w') =
                    bulkLoop (\<lambda>cardId. moveCard ev cardId (the (m_targetListId args)) (Some startPosition))
                      cardIds 0 ([], []) w
              in report ev (length cardIds) acc w')))"

record bulk_archive_args =
  ar_cardIds :: "string list option"
  ar_archive :: "bool option"

definition BulkArchiveCardsTool_execute ::
  "env \<Rightarrow> bulk_archive_args \<Rightarrow> world \<Rightarrow> bulk_report tool_result \<times> world" where
  "BulkArchiveCardsTool_execute ev args w =
     (case validateRequired [(''cardIds'', ar_cardIds args \<noteq> None)] of
        Some e \<Rightarrow> (ToolError (Caught (message e)), w)
      | None \<Rightarrow>
          (let cardIds = the (ar_cardIds args) in
           if length cardIds = 0 then (ToolError AtLeastOne, w)
           else if length cardIds > 50 then (ToolError AtMost50, w)
           else
             (let archive = (ar_archive args \<noteq> Some False);
                  (acc, w') =
                    bulkLoop (\<lambda>cardId. updateCard ev cardId (JObj [(''closed'', JBool archive)]))
                      cardIds 0 ([], []) w
              in report ev (length cardIds) acc w')))"

section \<open>The queue and the reservoir of the limiter\<close>

subsection \<open>Configuration\<close>

record RateLimitOptions =
  maxConcurrent :: "int option"
  minTime :: "int option"
  maxTime :: "int option"
  reservoir :: "int option"
  reservoirRefreshAmount :: "int option"
  reservoirRefreshInterval :: "int option"

text \<open>The settings that the constructor of \<open>TrelloRateLimiter\<close> hands to the limiter.\<close>

record limiter_settings =
  s_maxConcurrent :: int
  s_minTime :: int
  s_reservoir :: int
  s_reservoirRefreshAmount :: int
  s_reservoirRefreshInterval :: int
  s_highWater :: int

definition settings :: "RateLimitOptions option \<Rightarrow> limiter_settings" where
  "settings options =
     \<lparr>s_maxConcurrent = num_or (Option.bind options maxConcurrent) 10,
      s_minTime = num_or (Option.bind options minTime) 50,
      s_reservoir = num_or (Option.bind options reservoir) 50,
      s_reservoirRefreshAmount = num_or (Option.bind options reservoirRefreshAmount) 25,
      s_reservoirRefreshInterval = num_or (Option.bind options reservoirRefreshInterval) 2000,
      s_highWater = 50\<rparr>"

subsection \<open>The waiting queue\<close>

text \<open>
  The jobs that \<open>schedule\<close> passes on wait in the queue of the Bottleneck package
  (\<open>bottleneck ^2.19.5\<close> in package.json), which is a dependency and not part of the
  repository. Its documentation fixes the order: priorities range from \<open>0\<close> to \<open>9\<close>,
  \<open>5\<close> is the default, and a job with a priority of \<open>4\<close> is queued ahead of a job with a
  priority of \<open>5\<close>. So there is one waiting list per priority, the list of the smallest
  number is served first, and each list is served in the order of arrival.
\<close>

definition sanitizePriority :: "int \<Rightarrow> int" where
  "sanitizePriority p = (if p < 0 then 0 else if p > 9 then 9 else p)"

definition waiting_at :: "job list \<Rightarrow> int \<Rightarrow> job list" where
  "waiting_at queue p = filter (\<lambda>j. sanitizePriority (job_priority j) = p) queue"

text \<open>The job that is run next, the waiting jobs being given in the order of arrival.\<close>

definition next_job :: "job list \<Rightarrow> job option" where
  "next_job queue =
     (case concat (map (waiting_at queue) [0, 1, 2, 3, 4, 5, 6, 7, 8, 9]) of
        [] \<Rightarrow> None
      | j # rest \<Rightarrow> Some j)"

subsection \<open>The reservoir\<close>

text \<open>
  Modelled from the spec: the reservoir of the limiter. The repository only configures it
  (the constructor above) and reports its level as the constant \<open>0\<close>
  (\<open>getReservoirLevel\<close>); the pool itself is kept by the Bottleneck package. The spec
  describes it as a level with a ceiling: a job is admitted only if its weight is at
  least \<open>0\<close> and at most the level, and admission takes the weight off the level, which is
  never refunded; every refill adds the refill amount and caps the level at the ceiling.
\<close>

record reservoir_state =
  level :: int
  ceil :: int
  refillAmount :: int

datatype reservoir_event = Admission int | Refill

fun reservoir_step :: "reservoir_event \<Rightarrow> reservoir_state \<Rightarrow> reservoir_state" where
  "reservoir_step (Admission weight) r =
     (if 0 \<le> weight \<and> weight \<le> level r then r\<lparr>level := level r - weight\<rparr> else r)"
| "reservoir_step Refill r = r\<lparr>level := min (ceil r) (level r + refillAmount r)\<rparr>"

definition reservoir_run :: "reservoir_event list \<Rightarrow> reservoir_state \<Rightarrow> reservoir_state" where
  "reservoir_run events r = fold reservoir_step events r"

text \<open>The reservoir as the constructor configures it: full, the ceiling being the initial level.\<close>

definition initial_reservoir :: "limiter_settings \<Rightarrow> reservoir_state" where
  "initial_reservoir cfg =
     \<lparr>level = s_reservoir cfg, ceil = s_reservoir cfg, refillAmount = s_reservoirRefreshAmount cfg\<rparr>"

section \<open>Auxiliary notions and example data\<close>

text \<open>
  A call of \<open>makeRequest\<close> is served from the cache when the method is \<open>GET\<close>, caching is
  on, and the lookup of the cache key answers a value.
\<close>

definition servedFromCache :: "env \<Rightarrow> string \<Rightarrow> ApiRequestOptions \<Rightarrow> world \<Rightarrow> bool" where
  "servedFromCache ev ep options w =
     (let l = destructure ev ep options w in
      httpMethod l = GET \<and> useCache l \<and>
      fst (mc_get (cacheKey l) (clock w) (memoryCache w)) \<noteq> JUndefined)"

text \<open>The three counters of the client that count requests.\<close>

definition requestCounters :: "world \<Rightarrow> nat \<times> nat \<times> nat" where
  "requestCounters w =
     (totalRequests (stats w), successfulRequests (stats w), failedRequests (stats w))"

text \<open>A simplified rendering of values, standing in for \<open>JSON.stringify\<close> in the examples.\<close>

fun render :: "jsval \<Rightarrow> string" where
  "render JUndefined = ''undefined''"
| "render JNull = ''null''"
| "render (JBool b) = (if b then ''true'' else ''false'')"
| "render (JNum n) = string_of_int n"
| "render (JStr s) = ''\"'' @ s @ ''\"''"
| "render (JArr xs) = ''['' @ join '','' (map render xs) @ '']''"
| "render (JObj kvs) = ''{'' @ join '','' (map (\<lambda>(k, x). ''\"'' @ k @ ''\":'' @ render x) kvs) @ ''}''"

text \<open>
  Surroundings for the examples: the limiter runs every job at once, and the \<open>n\<close>-th
  transport call settles as \<open>script n\<close> after ten milliseconds.
\<close>

definition scripted :: "(nat \<Rightarrow> jsval settled) \<Rightarrow> env" where
  "scripted script =
     \<lparr>admit = (\<lambda>n j. (None, 0)),
      fetch = (\<lambda>n c. (script n, 10)),
      stringify = render,
      randomSuffix = (\<lambda>n. ''r''),
      validDate = (\<lambda>s. True),
      percentage = (\<lambda>s n. round_div (100 * int s) (int n)),
      typeError = ''Cannot read properties''\<rparr>"

text \<open>The state of a process that has just started, with the default cache configuration.\<close>

definition fresh :: world where
  "fresh =
     \<lparr>clock = 0,
      stats = \<lparr>totalRequests = 0, successfulRequests = 0, failedRequests = 0,
               cacheHits = 0, cacheMisses = 0, averageResponseTime = 0\<rparr>,
      memoryCache = \<lparr>cache = \<lparr>data = Map.empty, keys = 0, stdTTL = 300, maxKeys = 1000\<rparr>,
                     hits = 0, misses = 0\<rparr>,
      submitted = [],
      sent = []\<rparr>"

definition plainGet :: ApiRequestOptions where
  "plainGet = \<lparr>o_method = None, o_body = JUndefined, o_useCache = None, o_cacheTtl = None,
               o_priority = None, o_retries = None\<rparr>"

definition boards :: jsval where
  "boards = JArr [JObj [(''id'', JStr ''b1''), (''name'', JStr ''Roadmap'')]]"

definition boom :: js_error where
  "boom = Error ''socket hang up''"

text \<open>A state in which the list of boards is cached.\<close>

definition warm :: world where
  "warm = fresh\<lparr>memoryCache := snd (mc_set ''GET|/members/me/boards'' boards None 0 (memoryCache fresh))\<rparr>"

text \<open>
  For the statements about the bulk loops: the outcome of every item, in the order of the
  input. The function runs the batches exactly as the loops of the sources do and keeps
  each settled result next to the item it belongs to.
\<close>

function outcomesLoop ::
  "('a \<Rightarrow> jsval async) \<Rightarrow> 'a list \<Rightarrow> nat \<Rightarrow> world \<Rightarrow> ('a \<times> jsval settled) list \<times> world" where
  "outcomesLoop operation items i w =
     (if i < length items then
        (let batch = slice items i (i + batchSize);
             (batchResults, w1) = allSettled (map operation batch) w;
             w2 = (if i + batchSize < length items then sleep 100 w1 else w1);
             (later, w3) = outcomesLoop operation items (i + batchSize) w2
         in (zip batch batchResults @ later, w3))
      else ([], w))"
  by pat_completeness auto
termination
  by (relation "measure (\<lambda>(operation, items, i, w). length items - i)")
     (auto simp: batchSize_def)

text \<open>The values of the items that succeeded, and the failed items with their messages.\<close>

definition succeeded :: "('a \<times> jsval settled) list \<Rightarrow> jsval list" where
  "succeeded outcomes = concat (map (\<lambda>(x, r). case r of Inr val \<Rightarrow> [val] | Inl e \<Rightarrow> []) outcomes)"

definition failures :: "('a \<times> jsval settled) list \<Rightarrow> ('a \<times> string) list" where
  "failures outcomes =
     concat (map (\<lambda>(x, r). case r of Inr val \<Rightarrow> []
                             | Inl e \<Rightarrow> [(x, str_or (Some (message e)) ''Bilinmeyen hata'')]) outcomes)"




definition created :: jsval where
  "created = JObj [(''id'', JStr ''c1''), (''name'', JStr ''card'')]"

text \<open>
  With the default of three retries a card takes up to four transport calls. In the first
  run the first card fails (calls 0 to 3) and the second is created; in the second run the
  first card is created (call 0) and the second fails (calls 1 to 4), with another error.
\<close>

definition firstFails :: env where
  "firstFails = scripted (\<lambda>n. if n < 4 then Inl (Error ''rate limited'') else Inr created)"


definition plainCard :: card_input where
  "plainCard = \<lparr>ci_name = Some ''card'', ci_description = None, ci_dueDate = None,
                 ci_position = None, ci_memberIds = None, ci_labelIds = None\<rparr>"

definition manyCards :: "nat \<Rightarrow> bulk_create_args" where
  "manyCards n = \<lparr>a_listId = Some ''L1'', a_cards = Some (replicate n plainCard)\<rparr>"

definition manyIds :: "nat \<Rightarrow> bulk_move_args" where
  "manyIds n = \<lparr>m_cardIds = Some (replicate n ''c1''), m_targetListId = Some ''L2'',
                 m_startPosition = None\<rparr>"


section \<open>Properties of the request executor\<close>

declare retryLoop.simps [simp del]

subsection \<open>What one attempt and one run of the loop leave untouched\<close>

lemma sleep_simps [simp]:
  "stats (sleep d w) = stats w" "sent (sleep d w) = sent w" "submitted (sleep d w) = submitted w"
  "memoryCache (sleep d w) = memoryCache w" "clock (sleep d w) = clock w + d"
  by (simp_all add: sleep_def)

lemma executeRequest_frame:
  "executeRequest ev u m b w = (r, w') \<Longrightarrow>
     stats w' = stats w \<and> memoryCache w' = memoryCache w \<and> submitted w' = submitted w \<and>
     length (sent w') = length (sent w) + 1"
  by (auto simp: executeRequest_def Let_def split: prod.splits)

lemma schedule_executeRequest_frame:
  "schedule ev (executeRequest ev u m b) options w = (r, w') \<Longrightarrow>
     stats w' = stats w \<and> memoryCache w' = memoryCache w \<and>
     length (submitted w') = length (submitted w) + 1 \<and>
     length (sent w') \<le> length (sent w) + 1"
  by (auto simp: schedule_def Let_def split: prod.splits option.splits dest!: executeRequest_frame)

lemma scheduleRequest_frame:
  "scheduleRequest ev l w = (r, w') \<Longrightarrow>
     stats w' = stats w \<and> memoryCache w' = memoryCache w \<and>
     length (submitted w') = length (submitted w) + 1 \<and>
     length (sent w') \<le> length (sent w) + 1"
  by (auto simp: scheduleRequest_def scheduleHighPriority_def scheduleLowPriority_def
      split: priority.splits dest!: schedule_executeRequest_frame)

lemma updateStats_counters:
  "totalRequests (stats (updateStats s d w)) = totalRequests (stats w) + 1"
  "successfulRequests (stats (updateStats s d w)) = successfulRequests (stats w) + (if s then 1 else 0)"
  "failedRequests (stats (updateStats s d w)) = failedRequests (stats w) + (if s then 0 else 1)"
  "cacheHits (stats (updateStats s d w)) = cacheHits (stats w)"
  "cacheMisses (stats (updateStats s d w)) = cacheMisses (stats w)"
  "sent (updateStats s d w) = sent w" "submitted (updateStats s d w) = submitted w"
  "memoryCache (updateStats s d w) = memoryCache w" "clock (updateStats s d w) = clock w"
  by (simp_all add: updateStats_def Let_def)

lemma retryLoop_stats:
  "retryLoop ev l attempt lastError w = (res, w') \<Longrightarrow>
     (case res of
        Inr result \<Rightarrow>
          totalRequests (stats w') = totalRequests (stats w) + 1 \<and>
          successfulRequests (stats w') = successfulRequests (stats w) + 1 \<and>
          failedRequests (stats w') = failedRequests (stats w) \<and>
          cacheHits (stats w') = cacheHits (stats w) \<and>
          cacheMisses (stats w') = cacheMisses (stats w)
      | Inl e \<Rightarrow> stats w' = stats w)"
proof (induction ev l attempt lastError w rule: retryLoop.induct)
  case (1 ev l attempt lastError w)
  show ?case
  proof (cases "attempt \<le> retries l")
    case False
    with "1.prems" show ?thesis by (auto simp: retryLoop.simps)
  next
    case True
    obtain out w1 where att: "scheduleRequest ev l w = (out, w1)" by force
    from scheduleRequest_frame[OF att] have st: "stats w1 = stats w" by simp
    show ?thesis
    proof (cases out)
      case (Inr result)
      with "1.prems" True att st show ?thesis
        by (auto simp: retryLoop.simps[of ev l attempt] Let_def updateStats_counters split: if_splits)
    next
      case (Inl error)
      let ?w2 = "if attempt + 1 \<le> retries l then sleep (backoff (attempt + 1)) w1 else w1"
      have run: "retryLoop ev l (attempt + 1) (Some error) ?w2 = (res, w')"
        using "1.prems" True att Inl by (simp add: retryLoop.simps[of ev l attempt] Let_def)
      have "stats ?w2 = stats w" using st by simp
      with "1.IH"[OF True att[symmetric] Inl refl refl run] show ?thesis
        by (auto split: sum.splits)
    qed
  qed
qed


lemma tryRequest_failure:
  assumes "tryRequest ev l w = (Inl e, w')"
  shows "totalRequests (stats w') = totalRequests (stats w) + 2 \<and>
         successfulRequests (stats w') = successfulRequests (stats w) \<and>
         failedRequests (stats w') = failedRequests (stats w) + 2"
proof -
  obtain res w1 where run: "retryLoop ev l 0 None w = (res, w1)" by force
  with assms obtain le where "res = Inl le"
    and w': "w' = updateStats False (clock (updateStats False (clock w1 - startTime l) w1) - startTime l)
                    (updateStats False (clock w1 - startTime l) w1)"
    by (auto simp: tryRequest_def Let_def split: sum.splits)
  with retryLoop_stats[OF run] have "stats w1 = stats w" by simp
  then show ?thesis unfolding w' by (simp add: updateStats_counters)
qed

lemma makeRequest_hit:
  assumes "servedFromCache ev ep options w"
  shows "makeRequest ev ep options w =
           (Inr (fst (mc_get (cacheKey (destructure ev ep options w)) (clock w) (memoryCache w))),
            w\<lparr>memoryCache := snd (mc_get (cacheKey (destructure ev ep options w)) (clock w) (memoryCache w)),
              stats := (stats w)\<lparr>cacheHits := cacheHits (stats w) + 1\<rparr>\<rparr>)"
  using assms by (simp add: servedFromCache_def makeRequest_def Let_def split_def)

lemma makeRequest_miss:
  assumes "\<not> servedFromCache ev ep options w"
  shows "makeRequest ev ep options w =
           (let l = destructure ev ep options w in
            if httpMethod l = GET \<and> useCache l
            then tryRequest ev l
                   (w\<lparr>memoryCache := snd (mc_get (cacheKey l) (clock w) (memoryCache w)),
                      stats := (stats w)\<lparr>cacheMisses := cacheMisses (stats w) + 1\<rparr>\<rparr>)
            else tryRequest ev l w)"
  using assms by (auto simp add: servedFromCache_def makeRequest_def Let_def split_def)

subsection \<open>Statistics of one call\<close>




text \<open>The double count is not tied to the example: every call that fails is counted twice.\<close>

lemma makeRequest_counts_a_failure_twice:
  assumes "makeRequest ev ep options w = (Inl e, w')"
  shows "totalRequests (stats w') = totalRequests (stats w) + 2 \<and>
         successfulRequests (stats w') = successfulRequests (stats w) \<and>
         failedRequests (stats w') = failedRequests (stats w) + 2"
proof -
  have miss: "\<not> servedFromCache ev ep options w"
    using makeRequest_hit[of ev ep options w] assms by auto
  from makeRequest_miss[OF miss] assms
  have "tryRequest ev (destructure ev ep options w) w = (Inl e, w') \<or>
        tryRequest ev (destructure ev ep options w)
          (w\<lparr>memoryCache := snd (mc_get (cacheKey (destructure ev ep options w)) (clock w) (memoryCache w)),
             stats := (stats w)\<lparr>cacheMisses := cacheMisses (stats w) + 1\<rparr>\<rparr>) = (Inl e, w')"
    by (auto simp: Let_def split: if_splits)
  then show ?thesis
    by (auto dest!: tryRequest_failure)
qed

subsection \<open>Retries\<close>





subsection \<open>Cache hits\<close>

text \<open>
  C6. Let \<open>makeRequest\<close> be called with method \<open>GET\<close> and caching on (both are the
  defaults), and let the store hold, under the derived cache key, an entry that has not
  expired and whose value is not \<open>undefined\<close> (which is how the wrapper tells a hit from a
  miss). Then the call returns the cached value at once: \<open>cacheHits\<close> grows by one, no job
  is handed to the limiter, no transport call is made, no time passes, and the request
  counters stay as they are.
\<close>

theorem cache_hit_returns_at_once:
  assumes "o_method options = None \<or> o_method options = Some GET"
    and "o_useCache options = None \<or> o_useCache options = Some True"
    and "data (cache (memoryCache w)) (generateCacheKey ev GET ep (o_body options)) = Some e"
    and "\<not> expired (clock w) e"
    and "e_v e \<noteq> JUndefined"
  shows "fst (makeRequest ev ep options w) = Inr (e_v e) \<and>
         cacheHits (stats (snd (makeRequest ev ep options w))) = cacheHits (stats w) + 1 \<and>
         submitted (snd (makeRequest ev ep options w)) = submitted w \<and>
         sent (snd (makeRequest ev ep options w)) = sent w \<and>
         clock (snd (makeRequest ev ep options w)) = clock w \<and>
         requestCounters (snd (makeRequest ev ep options w)) = requestCounters w"
proof -
  let ?l = "destructure ev ep options w"
  have l: "httpMethod ?l = GET" "useCache ?l" "cacheKey ?l = generateCacheKey ev GET ep (o_body options)"
    using assms(1,2) by (auto simp: destructure_def Let_def)
  have get: "mc_get (cacheKey ?l) (clock w) (memoryCache w)
               = (e_v e, (memoryCache w)\<lparr>hits := hits (memoryCache w) + 1\<rparr>)"
    using assms(3,4,5) by (simp add: l mc_get_def nc_get_def)
  then have "servedFromCache ev ep options w"
    using assms(5) l by (simp add: servedFromCache_def Let_def)
  from makeRequest_hit[OF this] show ?thesis
    by (simp add: get requestCounters_def)
qed

theorem cache_hit_returns_at_once_witness:
  "fst (makeRequest (scripted (\<lambda>n. Inl boom)) ''/members/me/boards'' plainGet warm) = Inr boards \<and>
   cacheHits (stats (snd (makeRequest (scripted (\<lambda>n. Inl boom)) ''/members/me/boards'' plainGet warm))) = 1 \<and>
   submitted (snd (makeRequest (scripted (\<lambda>n. Inl boom)) ''/members/me/boards'' plainGet warm)) = [] \<and>
   sent (snd (makeRequest (scripted (\<lambda>n. Inl boom)) ''/members/me/boards'' plainGet warm)) = []"
proof -
  let ?E = "scripted (\<lambda>n. Inl boom)"
  have k: "generateCacheKey ?E GET ''/members/me/boards'' (o_body plainGet) = ''GET|/members/me/boards''"
    by (simp add: generateCacheKey_def plainGet_def)
  have d: "data (cache (memoryCache warm)) (generateCacheKey ?E GET ''/members/me/boards'' (o_body plainGet))
             = Some \<lparr>e_v = boards, e_t = 0\<rparr>"
    unfolding k by (simp add: warm_def fresh_def mc_set_def nc_set_def ttl_or_0_def wrap_def)
  have x: "\<not> expired (clock warm) \<lparr>e_v = boards, e_t = 0\<rparr>" by (simp add: expired_def)
  have u: "e_v \<lparr>e_v = boards, e_t = 0\<rparr> \<noteq> JUndefined" by (simp add: boards_def)
  have m: "o_method plainGet = None \<or> o_method plainGet = Some GET" by (simp add: plainGet_def)
  have c: "o_useCache plainGet = None \<or> o_useCache plainGet = Some True" by (simp add: plainGet_def)
  have z: "cacheHits (stats warm) = 0" "submitted warm = []" "sent warm = []"
    by (simp_all add: warm_def fresh_def)
  from cache_hit_returns_at_once[OF m c d x u] show ?thesis by (simp add: z)
qed

subsection \<open>The cache key\<close>

lemma takeWhile_bar:
  "CHR ''|'' \<notin> set a \<Longrightarrow> takeWhile (\<lambda>c. c \<noteq> CHR ''|'') (a @ CHR ''|'' # x) = a"
  "CHR ''|'' \<notin> set a \<Longrightarrow> takeWhile (\<lambda>c. c \<noteq> CHR ''|'') a = a"
  by (induction a) auto

lemma split_at_bar:
  assumes "CHR ''|'' \<notin> set a" "CHR ''|'' \<notin> set b" "a @ CHR ''|'' # x = b @ CHR ''|'' # y"
  shows "a = b \<and> x = y"
proof -
  have "takeWhile (\<lambda>c. c \<noteq> CHR ''|'') (a @ CHR ''|'' # x) = a"
       "takeWhile (\<lambda>c. c \<noteq> CHR ''|'') (b @ CHR ''|'' # y) = b"
    using assms(1,2) by (simp_all add: takeWhile_bar)
  with assms(3) have "a = b" by simp
  with assms(3) show ?thesis by simp
qed

lemma split_tail:
  assumes "CHR ''|'' \<notin> set a" "CHR ''|'' \<notin> set b"
    and "a @ (if p then CHR ''|'' # x else []) = b @ (if q then CHR ''|'' # y else [])"
  shows "a = b \<and> p = q \<and> (p \<longrightarrow> x = y)"
proof -
  have "takeWhile (\<lambda>c. c \<noteq> CHR ''|'') (a @ (if p then CHR ''|'' # x else [])) = a"
       "takeWhile (\<lambda>c. c \<noteq> CHR ''|'') (b @ (if q then CHR ''|'' # y else [])) = b"
    using assms(1,2) by (simp_all add: takeWhile_bar)
  with assms(3) have ab: "a = b" by simp
  with assms(3) show ?thesis by (auto split: if_splits)
qed

lemma method_name_no_bar: "CHR ''|'' \<notin> set (method_name m)"
  by (cases m) simp_all

lemma method_name_inj: "method_name m = method_name m' \<Longrightarrow> m = m'"
  by (cases m; cases m') simp_all

lemma generateCacheKey_eq:
  "generateCacheKey ev m ep b =
     method_name m @ ''|'' @ ep @ (if truthy b then ''|'' @ stringify ev b else [])"
  by (simp add: generateCacheKey_def Let_def)

lemma generateCacheKey_cons:
  "generateCacheKey ev m ep b =
     method_name m @ CHR ''|'' # (ep @ (if truthy b then CHR ''|'' # stringify ev b else []))"
  by (simp add: generateCacheKey_def Let_def)

lemma generateCacheKey_inj:
  assumes "CHR ''|'' \<notin> set ep" "CHR ''|'' \<notin> set ep'"
    and "generateCacheKey ev m ep b = generateCacheKey ev m' ep' b'"
  shows "m = m' \<and> ep = ep' \<and> truthy b = truthy b' \<and> (truthy b \<longrightarrow> stringify ev b = stringify ev b')"
proof -
  from assms(3)
  have eq: "method_name m @ CHR ''|'' # (ep @ (if truthy b then CHR ''|'' # stringify ev b else []))
          = method_name m' @ CHR ''|'' # (ep' @ (if truthy b' then CHR ''|'' # stringify ev b' else []))"
    unfolding generateCacheKey_cons .
  from split_at_bar[OF method_name_no_bar method_name_no_bar eq]
  have mm: "method_name m = method_name m'"
    and rest: "ep @ (if truthy b then CHR ''|'' # stringify ev b else [])
             = ep' @ (if truthy b' then CHR ''|'' # stringify ev b' else [])" by simp_all
  from split_tail[OF assms(1,2) rest] method_name_inj[OF mm] show ?thesis by simp
qed

lemma cacheKey_ignores_policy:
  "o_method o1 = o_method o2 \<Longrightarrow> o_body o1 = o_body o2 \<Longrightarrow>
     cacheKey (destructure ev ep o1 w1) = cacheKey (destructure ev ep o2 w2)"
  by (simp add: destructure_def Let_def)

text \<open>
  C7. The cache key is the method, the endpoint and, for a truthy body, the serialized
  body, joined by \<open>|\<close>. It is computed from these three alone: two option objects with
  the same method and body give the same key for an endpoint, whatever their \<open>useCache\<close>,
  \<open>cacheTtl\<close>, \<open>priority\<close> and \<open>retries\<close>, and whatever the state. For practical purposes
  different requests have different keys: when the endpoints do not contain the separator,
  equal keys force equal methods, equal endpoints, and bodies that are both falsy or have
  the same serialization.
\<close>

theorem cacheKey_is_method_endpoint_body:
  "generateCacheKey ev m ep b =
     method_name m @ ''|'' @ ep @ (if truthy b then ''|'' @ stringify ev b else []) \<and>
   (o_method o1 = o_method o2 \<and> o_body o1 = o_body o2 \<longrightarrow>
      cacheKey (destructure ev ep o1 w1) = cacheKey (destructure ev ep o2 w2)) \<and>
   (CHR ''|'' \<notin> set ep \<and> CHR ''|'' \<notin> set ep' \<and>
    generateCacheKey ev m ep b = generateCacheKey ev m' ep' b' \<longrightarrow>
      m = m' \<and> ep = ep' \<and> truthy b = truthy b' \<and> (truthy b \<longrightarrow> stringify ev b = stringify ev b'))"
  using generateCacheKey_eq[of ev m ep b] cacheKey_ignores_policy[of o1 o2 ev ep w1 w2]
    generateCacheKey_inj[of ep ep' ev m b m' b']
  by blast

theorem cacheKey_is_method_endpoint_body_witness:
  "generateCacheKey (scripted (\<lambda>n. Inl boom)) POST ''/cards'' (JObj [(''name'', JStr ''x'')])
     = ''POST|/cards|{\"name\":\"x\"}'' \<and>
   cacheKey (destructure (scripted (\<lambda>n. Inl boom)) ''/boards/b1''
       (plainGet\<lparr>o_useCache := Some False, o_cacheTtl := Some 60, o_priority := Some High, o_retries := Some 0\<rparr>) warm)
     = cacheKey (destructure (scripted (\<lambda>n. Inl boom)) ''/boards/b1'' plainGet fresh) \<and>
   generateCacheKey (scripted (\<lambda>n. Inl boom)) GET ''/boards/b1'' JUndefined
     \<noteq> generateCacheKey (scripted (\<lambda>n. Inl boom)) GET ''/boards/b2'' JUndefined"
proof -
  let ?E = "scripted (\<lambda>n. Inl boom)"
  let ?O = "plainGet\<lparr>o_useCache := Some False, o_cacheTtl := Some 60, o_priority := Some High, o_retries := Some 0\<rparr>"
  have a: "generateCacheKey ?E POST ''/cards'' (JObj [(''name'', JStr ''x'')]) = ''POST|/cards|{\"name\":\"x\"}''"
    using cacheKey_is_method_endpoint_body[of ?E POST "''/cards''" "JObj [(''name'', JStr ''x'')]"]
    by (simp add: scripted_def)
  have same: "o_method ?O = o_method plainGet \<and> o_body ?O = o_body plainGet" by simp
  have b: "cacheKey (destructure ?E ''/boards/b1'' ?O warm) = cacheKey (destructure ?E ''/boards/b1'' plainGet fresh)"
    using cacheKey_is_method_endpoint_body[of ?E GET "''/boards/b1''" JUndefined ?O plainGet warm fresh] same
    by blast
  have nb: "CHR ''|'' \<notin> set ''/boards/b1'' \<and> CHR ''|'' \<notin> set ''/boards/b2''" by simp
  have ne: "''/boards/b1'' \<noteq> ''/boards/b2''" by simp
  have c: "generateCacheKey ?E GET ''/boards/b1'' JUndefined \<noteq> generateCacheKey ?E GET ''/boards/b2'' JUndefined"
    using cacheKey_is_method_endpoint_body[of ?E GET "''/boards/b1''" JUndefined plainGet plainGet fresh fresh
        "''/boards/b2''" GET JUndefined] nb ne
    by blast
  from a b c show ?thesis by blast
qed

text \<open>
  The limits of the last part: a falsy body (\<open>0\<close>, \<open>""\<close>, \<open>null\<close>, \<open>false\<close>) is left out of the
  key like an absent one.
\<close>

lemma falsy_bodies_share_a_key:
  "\<not> truthy b \<Longrightarrow> generateCacheKey ev m ep b = generateCacheKey ev m ep JUndefined"
  by (simp add: generateCacheKey_def)

section \<open>Properties of the cache\<close>




text \<open>
  C10. \<open>MemoryCache.set\<close> called without a ttl, or with the ttl \<open>0\<close>, calls the store
  with the ttl \<open>0\<close>. If the store takes the entry, the entry has the expiry time \<open>0\<close>, and
  a lookup at any later time still finds it, whatever the configured \<open>stdTTL\<close>.
\<close>

theorem set_without_ttl_never_expires:
  assumes "ttl = None \<or> ttl = Some 0"
  shows "mc_set k val ttl time m =
           (fst (nc_set k val (Some 0) time (cache m)), m\<lparr>cache := snd (nc_set k val (Some 0) time (cache m))\<rparr>) \<and>
         (fst (mc_set k val ttl time m) \<longrightarrow>
            data (cache (snd (mc_set k val ttl time m))) k = Some \<lparr>e_v = val, e_t = 0\<rparr> \<and>
            (\<forall>later. nc_get k later (cache (snd (mc_set k val ttl time m)))
                        = (val, cache (snd (mc_set k val ttl time m)))))"
  using assms
  by (auto simp: mc_set_def nc_set_def ttl_or_0_def wrap_def nc_get_def expired_def split_def)

theorem set_without_ttl_never_expires_witness:
  "fst (mc_set ''k'' boards None 0 (memoryCache fresh)) \<and>
   stdTTL (cache (memoryCache fresh)) = 300 \<and>
   data (cache (snd (mc_set ''k'' boards None 0 (memoryCache fresh)))) ''k'' = Some \<lparr>e_v = boards, e_t = 0\<rparr> \<and>
   fst (nc_get ''k'' 1000000000 (cache (snd (mc_set ''k'' boards None 0 (memoryCache fresh))))) = boards"
proof -
  have ok: "fst (mc_set ''k'' boards None 0 (memoryCache fresh))"
    by (simp add: fresh_def mc_set_def nc_set_def)
  have std: "stdTTL (cache (memoryCache fresh)) = 300" by (simp add: fresh_def)
  have "data (cache (snd (mc_set ''k'' boards None 0 (memoryCache fresh)))) ''k'' = Some \<lparr>e_v = boards, e_t = 0\<rparr> \<and>
        (\<forall>later. nc_get ''k'' later (cache (snd (mc_set ''k'' boards None 0 (memoryCache fresh))))
                        = (boards, cache (snd (mc_set ''k'' boards None 0 (memoryCache fresh)))))"
    using set_without_ttl_never_expires[of None "''k''" boards 0 "memoryCache fresh"] ok by blast
  with ok std show ?thesis by simp
qed

section \<open>Properties of the rate limiter\<close>

subsection \<open>Priorities\<close>

text \<open>
  C2 asks that a job submitted by \<open>scheduleHighPriority\<close> is run before a waiting job
  submitted by \<open>scheduleLowPriority\<close>. The two wrappers give their jobs the priorities \<open>9\<close>
  and \<open>1\<close>, and the queue serves the smaller number first: whenever one job of each kind
  waits, in either order of arrival, the job that is run next is the low priority one.
\<close>

theorem low_priority_job_runs_before_high_priority_job:
  "next_job [jobOptions ev (Some (highPriorityOptions i1 t1)) t1 n1,
             jobOptions ev (Some (lowPriorityOptions i2 t2)) t2 n2]
     = Some (jobOptions ev (Some (lowPriorityOptions i2 t2)) t2 n2) \<and>
   next_job [jobOptions ev (Some (lowPriorityOptions i2 t2)) t2 n2,
             jobOptions ev (Some (highPriorityOptions i1 t1)) t1 n1]
     = Some (jobOptions ev (Some (lowPriorityOptions i2 t2)) t2 n2)"
  by (simp add: next_job_def waiting_at_def sanitizePriority_def jobOptions_def
      highPriorityOptions_def lowPriorityOptions_def num_or_def)

text \<open>The numbers by themselves: high is the largest, low the smallest, the default between.\<close>

lemma priority_numbers:
  "job_priority (jobOptions ev (Some (highPriorityOptions i t)) t n) = 9 \<and>
   job_priority (jobOptions ev None t n) = 5 \<and>
   job_priority (jobOptions ev (Some (lowPriorityOptions i t)) t n) = 1"
  by (simp add: jobOptions_def highPriorityOptions_def lowPriorityOptions_def num_or_def)

subsection \<open>The reservoir\<close>

lemma reservoir_step_range:
  assumes "0 \<le> level r" "level r \<le> ceil r" "0 \<le> refillAmount r"
  shows "0 \<le> level (reservoir_step ev r) \<and> level (reservoir_step ev r) \<le> ceil (reservoir_step ev r) \<and>
         ceil (reservoir_step ev r) = ceil r \<and> refillAmount (reservoir_step ev r) = refillAmount r"
  using assms by (cases ev) auto

text \<open>
  C8. Let the reservoir start with a level between \<open>0\<close> and its ceiling and with a refill
  amount that is not negative (as the constructor sets it up by default: level and ceiling
  \<open>50\<close>, refill \<open>25\<close>). Then after every sequence of admissions and refills the level is
  still between \<open>0\<close> and the ceiling, and the ceiling is the same.
\<close>

theorem reservoir_level_stays_in_range:
  assumes "0 \<le> level r" "level r \<le> ceil r" "0 \<le> refillAmount r"
  shows "0 \<le> level (reservoir_run events r) \<and>
         level (reservoir_run events r) \<le> ceil (reservoir_run events r) \<and>
         ceil (reservoir_run events r) = ceil r"
  using assms
proof (induction events arbitrary: r)
  case Nil
  then show ?case by (simp add: reservoir_run_def)
next
  case (Cons ev events)
  from reservoir_step_range[OF Cons.prems, of ev] Cons.prems Cons.IH[of "reservoir_step ev r"]
  show ?case by (simp add: reservoir_run_def)
qed

theorem reservoir_level_stays_in_range_witness:
  "0 \<le> level (initial_reservoir (settings None)) \<and>
   level (initial_reservoir (settings None)) \<le> ceil (initial_reservoir (settings None)) \<and>
   0 \<le> refillAmount (initial_reservoir (settings None)) \<and>
   0 \<le> level (reservoir_run [Admission 1, Admission 60, Admission 40, Refill, Refill]
                 (initial_reservoir (settings None))) \<and>
   level (reservoir_run [Admission 1, Admission 60, Admission 40, Refill, Refill]
            (initial_reservoir (settings None))) \<le> 50"
proof -
  let ?r = "initial_reservoir (settings None)"
  have a: "0 \<le> level ?r" "level ?r \<le> ceil ?r" "0 \<le> refillAmount ?r" "ceil ?r = 50"
    by (simp_all add: initial_reservoir_def settings_def num_or_def)
  from reservoir_level_stays_in_range[OF a(1,2,3), of "[Admission 1, Admission 60, Admission 40, Refill, Refill]"] a
  show ?thesis by simp
qed

text \<open>What the repository itself reports as the level of the reservoir.\<close>

lemma getReservoirLevel_is_0: "getReservoirLevel w = 0"
  by (simp add: getReservoirLevel_def)

section \<open>Properties of the bulk tools\<close>

subsection \<open>The batch size cap\<close>

text \<open>
  C5. A bulk creation with more than fifty cards, and a bulk move with more than fifty
  card ids, answer an error and return the state they were given: no request is counted,
  no job is handed to the limiter, and no transport call is made. The error is the one of
  the cap, unless the other required field is missing, which is reported first.
\<close>

theorem oversized_batch_is_rejected_untouched:
  "(a_cards args = Some cs \<and> length cs > 50 \<longrightarrow>
      BulkCreateCardsTool_execute ev args w =
        (ToolError (if nonempty (a_listId args) then AtMost50
                    else Caught ''Missing required fields: listId''), w)) \<and>
   (m_cardIds margs = Some ids \<and> length ids > 50 \<longrightarrow>
      BulkMoveCardsTool_execute ev margs w =
        (ToolError (if nonempty (m_targetListId margs) then AtMost50
                    else Caught ''Missing required fields: targetListId''), w))"
  by (auto simp: BulkCreateCardsTool_execute_def BulkMoveCardsTool_execute_def validateRequired_def
      Error_def Let_def)

theorem oversized_batch_is_rejected_untouched_witness:
  "BulkCreateCardsTool_execute firstFails (manyCards 51) fresh = (ToolError AtMost50, fresh) \<and>
   BulkMoveCardsTool_execute firstFails (manyIds 51) fresh = (ToolError AtMost50, fresh)"
proof -
  have a: "a_cards (manyCards 51) = Some (replicate 51 plainCard) \<and> length (replicate 51 plainCard) > 50"
    "nonempty (a_listId (manyCards 51))"
    by (simp_all add: manyCards_def nonempty_def)
  have b: "m_cardIds (manyIds 51) = Some (replicate 51 ''c1'') \<and> length (replicate 51 ''c1'') > 50"
    "nonempty (m_targetListId (manyIds 51))"
    by (simp_all add: manyIds_def nonempty_def)
  from oversized_batch_is_rejected_untouched[of "manyCards 51" "replicate 51 plainCard" firstFails fresh
      "manyIds 51" "replicate 51 ''c1''"] a b
  show ?thesis by presburger
qed

subsection \<open>What the bulk tools report\<close>

declare bulkLoop.simps [simp del] bulkCreateLoop.simps [simp del] outcomesLoop.simps [simp del]


lemma succeeded_Nil [simp]: "succeeded [] = []"
  by (simp add: succeeded_def)

lemma failures_Nil [simp]: "failures [] = []"
  by (simp add: failures_def)

lemma succeeded_append [simp]: "succeeded (xs @ ys) = succeeded xs @ succeeded ys"
  by (simp add: succeeded_def)

lemma failures_append [simp]: "failures (xs @ ys) = failures xs @ failures ys"
  by (simp add: failures_def)















end
